theory Spec2Isabelle
  imports Main
begin

section \<open>The value types that cross the interface\<close>

text \<open>
  Modelled from the spec: the class templates \<^verbatim>\<open>Range\<close>, \<^verbatim>\<open>Rectangle\<close>, \<^verbatim>\<open>Point\<close>,
  \<^verbatim>\<open>RectangleList\<close>, \<^verbatim>\<open>Array\<close> and the class \<^verbatim>\<open>String\<close> are used by
  \<^verbatim>\<open>juce_TextInputTarget.h\<close> but declared elsewhere. The spec's data model gives a character
  range as "a pair (start offset, end offset) over a zero-based codepoint index space", empty
  when the two offsets are equal, and geometry as a rectangle or a list of rectangles in the
  widget's local coordinate space. All of them are instantiated at \<^verbatim>\<open>int\<close> in the header.
  The header performs no arithmetic on any \<^verbatim>\<open>int\<close> (its two function bodies are a delegation
  and a constant), so the width of \<^verbatim>\<open>int\<close> plays no role and HOL's \<^typ>\<open>int\<close> is used.
  A \<^verbatim>\<open>String\<close> is a \<^typ>\<open>string\<close>, one list element per codepoint; an \<^verbatim>\<open>Array\<close> and a
  \<^verbatim>\<open>RectangleList\<close> are lists.
\<close>

record Range_int =
  getStart :: int
  getEnd :: int

record Point_int =
  Point_x :: int
  Point_y :: int

record Rectangle_int =
  Rectangle_x :: int
  Rectangle_y :: int
  Rectangle_w :: int
  Rectangle_h :: int

definition Range_isEmpty :: "Range_int \<Rightarrow> bool" where
  "Range_isEmpty r \<longleftrightarrow> getStart r = getEnd r"

section \<open>\<^verbatim>\<open>enum VirtualKeyboardType\<close>\<close>

datatype VirtualKeyboardType =
    textKeyboard
  | numericKeyboard
  | decimalKeyboard
  | urlKeyboard
  | emailAddressKeyboard
  | phoneNumberKeyboard
  | passwordKeyboard

text \<open>
  The enumerators in the order of their declaration. Only \<^verbatim>\<open>textKeyboard\<close> has an
  initialiser (\<^verbatim>\<open>= 0\<close>); every later enumerator is one more than the enumerator before it, so
  the integer of an enumerator is the initialiser plus its position in the declaration.
\<close>

definition VirtualKeyboardType_enumerators :: "VirtualKeyboardType list" where
  "VirtualKeyboardType_enumerators =
     [textKeyboard, numericKeyboard, decimalKeyboard, urlKeyboard,
      emailAddressKeyboard, phoneNumberKeyboard, passwordKeyboard]"

fun declaredAt :: "'a \<Rightarrow> 'a list \<Rightarrow> int" where
  "declaredAt k [] = 0"
| "declaredAt k (e # es) = (if e = k then 0 else declaredAt k es + 1)"

definition enumValue :: "VirtualKeyboardType \<Rightarrow> int" where
  "enumValue k = 0 + declaredAt k VirtualKeyboardType_enumerators"

section \<open>\<^verbatim>\<open>class TextInputTarget\<close>\<close>

text \<open>
  The abstract class is a table of the virtual member functions a derived class supplies, over
  the derived object's state \<open>'s\<close>. The object (\<^verbatim>\<open>this\<close>) is the first argument of every slot.
  A member function declared \<^verbatim>\<open>const\<close> reads the state and returns its result; one that is not
  \<^verbatim>\<open>const\<close> also returns the state it leaves behind. The eleven pure virtual functions
  (\<^verbatim>\<open>= 0\<close>) are mandatory slots. \<^verbatim>\<open>getKeyboardType\<close> is virtual with a body, so its slot is
  optional: \<open>None\<close> is a derived class that does not override it. \<^verbatim>\<open>const\<close> is read as a promise
  about the object's state; \<^verbatim>\<open>mutable\<close> members and effects outside the object are not
  modelled.
\<close>

record 's TextInputTarget =
  isTextInputActive :: "'s \<Rightarrow> bool"
  getHighlightedRegion :: "'s \<Rightarrow> Range_int"
  setHighlightedRegion :: "'s \<Rightarrow> Range_int \<Rightarrow> 's"
  setTemporaryUnderlining :: "'s \<Rightarrow> Range_int list \<Rightarrow> 's"
  getTextInRange :: "'s \<Rightarrow> Range_int \<Rightarrow> string"
  insertTextAtCaret :: "'s \<Rightarrow> string \<Rightarrow> 's"
  getCaretPosition :: "'s \<Rightarrow> int"
  getCaretRectangleForCharIndex :: "'s \<Rightarrow> int \<Rightarrow> Rectangle_int"
  getTotalNumChars :: "'s \<Rightarrow> int"
  getCharIndexForPoint :: "'s \<Rightarrow> Point_int \<Rightarrow> int"
  getTextBounds :: "'s \<Rightarrow> Range_int \<Rightarrow> Rectangle_int list"
  getKeyboardType_override :: "('s \<Rightarrow> VirtualKeyboardType \<times> 's) option"

text \<open>
  \<^verbatim>\<open>Rectangle<int> getCaretRectangle() const
     { return getCaretRectangleForCharIndex (getCaretPosition()); }\<close>
  The function is not virtual: it is no slot of the table, and every target runs this body.
\<close>

definition getCaretRectangle :: "'s TextInputTarget \<Rightarrow> 's \<Rightarrow> Rectangle_int" where
  "getCaretRectangle W s = getCaretRectangleForCharIndex W s (getCaretPosition W s)"

text \<open>
  \<^verbatim>\<open>virtual VirtualKeyboardType getKeyboardType() { return textKeyboard; }\<close>
  The body of the base class; the function is not \<^verbatim>\<open>const\<close>.
\<close>

definition TextInputTarget_getKeyboardType :: "'s \<Rightarrow> VirtualKeyboardType \<times> 's" where
  "TextInputTarget_getKeyboardType s = (textKeyboard, s)"

text \<open>The virtual call: the override of the derived class if there is one, else the base body.\<close>

definition getKeyboardType :: "'s TextInputTarget \<Rightarrow> 's \<Rightarrow> VirtualKeyboardType \<times> 's" where
  "getKeyboardType W s =
     (case getKeyboardType_override W of
        None \<Rightarrow> TextInputTarget_getKeyboardType s
      | Some f \<Rightarrow> f s)"

subsection \<open>Calls through the interface\<close>

text \<open>
  A consumer of the interface (an input method, an on-screen keyboard) holds a target and calls
  its public member functions. A call names the function and its arguments; \<open>invoke\<close> returns
  what the call returns together with the state of the target after it.
\<close>

datatype request =
    IsTextInputActive
  | GetHighlightedRegion
  | SetHighlightedRegion Range_int
  | SetTemporaryUnderlining "Range_int list"
  | GetTextInRange Range_int
  | InsertTextAtCaret string
  | GetCaretPosition
  | GetCaretRectangle
  | GetCaretRectangleForCharIndex int
  | GetTotalNumChars
  | GetCharIndexForPoint Point_int
  | GetTextBounds Range_int
  | GetKeyboardType

datatype reply =
    RVoid
  | RBool bool
  | RInt int
  | RString string
  | RRange Range_int
  | RRectangle Rectangle_int
  | RRectangleList "Rectangle_int list"
  | RKeyboard VirtualKeyboardType

fun invoke :: "'s TextInputTarget \<Rightarrow> request \<Rightarrow> 's \<Rightarrow> reply \<times> 's" where
  "invoke W IsTextInputActive s = (RBool (isTextInputActive W s), s)"
| "invoke W GetHighlightedRegion s = (RRange (getHighlightedRegion W s), s)"
| "invoke W (SetHighlightedRegion r) s = (RVoid, setHighlightedRegion W s r)"
| "invoke W (SetTemporaryUnderlining rs) s = (RVoid, setTemporaryUnderlining W s rs)"
| "invoke W (GetTextInRange r) s = (RString (getTextInRange W s r), s)"
| "invoke W (InsertTextAtCaret t) s = (RVoid, insertTextAtCaret W s t)"
| "invoke W GetCaretPosition s = (RInt (getCaretPosition W s), s)"
| "invoke W GetCaretRectangle s = (RRectangle (getCaretRectangle W s), s)"
| "invoke W (GetCaretRectangleForCharIndex i) s =
     (RRectangle (getCaretRectangleForCharIndex W s i), s)"
| "invoke W GetTotalNumChars s = (RInt (getTotalNumChars W s), s)"
| "invoke W (GetCharIndexForPoint p) s = (RInt (getCharIndexForPoint W s p), s)"
| "invoke W (GetTextBounds r) s = (RRectangleList (getTextBounds W s r), s)"
| "invoke W GetKeyboardType s =
     (case getKeyboardType W s of (k, s') \<Rightarrow> (RKeyboard k, s'))"

text \<open>A sequence of calls, each on the state the previous one left.\<close>

fun run :: "'s TextInputTarget \<Rightarrow> request list \<Rightarrow> 's \<Rightarrow> 's" where
  "run W [] s = s"
| "run W (c # cs) s = run W cs (snd (invoke W c s))"

subsection \<open>A derived class that keeps the default keyboard\<close>

text \<open>
  A target for examples. Its one member is a counter that no member function changes; its text
  is empty, its caret boxes are eight units apart, and it does not override
  \<^verbatim>\<open>getKeyboardType\<close>.
\<close>

definition plainTarget :: "nat TextInputTarget" where
  "plainTarget =
     \<lparr> isTextInputActive = (\<lambda>n. True),
       getHighlightedRegion = (\<lambda>n. \<lparr>getStart = 0, getEnd = 0\<rparr>),
       setHighlightedRegion = (\<lambda>n r. n),
       setTemporaryUnderlining = (\<lambda>n rs. n),
       getTextInRange = (\<lambda>n r. []),
       insertTextAtCaret = (\<lambda>n t. n),
       getCaretPosition = (\<lambda>n. 0),
       getCaretRectangleForCharIndex =
         (\<lambda>n i. \<lparr>Rectangle_x = 8 * i, Rectangle_y = 0, Rectangle_w = 1, Rectangle_h = 16\<rparr>),
       getTotalNumChars = (\<lambda>n. 0),
       getCharIndexForPoint = (\<lambda>n p. 0),
       getTextBounds = (\<lambda>n r. []),
       getKeyboardType_override = None \<rparr>"

section \<open>A text editor behind the interface\<close>

text \<open>
  Modelled from the spec: no class derived from \<^verbatim>\<open>TextInputTarget\<close> is among the sources, so
  the bodies of the pure virtual functions are missing. The editor below follows section 4.1 of
  the spec operation by operation. Its state is what the spec's data model names: the text
  buffer, the highlighted region, the caret, the temporary underlines and whether edits are
  accepted.
\<close>

record Editor =
  buffer :: string
  selection :: Range_int
  caret :: int
  underlining :: "Range_int list"
  accepting :: bool

text \<open>
  Modelled from the spec: "the implementing widget is responsible for clamping or rejecting
  out-of-range input"; which of the two is left open, so the policy is a parameter.
\<close>

datatype policy = Clamp | Reject

text \<open>
  Modelled from the spec: text layout, shaping and font metrics are external collaborators.
  The geometry queries are answered by a layout given from outside, a function of the text.
\<close>

record layout =
  caretBox :: "string \<Rightarrow> int \<Rightarrow> Rectangle_int"
  nearestIndex :: "string \<Rightarrow> Point_int \<Rightarrow> int"
  rangeBoxes :: "string \<Rightarrow> Range_int \<Rightarrow> Rectangle_int list"

text \<open>Modelled from the spec: "total codepoint count of the widget's text".\<close>

definition Editor_getTotalNumChars :: "Editor \<Rightarrow> int" where
  "Editor_getTotalNumChars e = int (length (buffer e))"

text \<open>
  Modelled from the spec: a range is valid when it references "valid codepoint offsets within
  [0, totalNumChars]" of the current text. A range runs from its start offset to its end
  offset, so a pair whose end lies before its start is no valid range either.
\<close>

definition withinBounds :: "Range_int \<Rightarrow> int \<Rightarrow> bool" where
  "withinBounds r n \<longleftrightarrow> 0 \<le> getStart r \<and> getStart r \<le> getEnd r \<and> getEnd r \<le> n"

text \<open>
  Modelled from the spec: "clamping to valid bounds". Each offset is moved into \<open>[0, n]\<close>, and
  an end that would lie before the start is moved up to it.
\<close>

definition clampOffset :: "int \<Rightarrow> int \<Rightarrow> int" where
  "clampOffset n i = max 0 (min n i)"

definition clampRange :: "int \<Rightarrow> Range_int \<Rightarrow> Range_int" where
  "clampRange n r =
     \<lparr> getStart = clampOffset n (getStart r),
       getEnd = max (clampOffset n (getStart r)) (clampOffset n (getEnd r)) \<rparr>"

text \<open>
  Modelled from the spec: "sets selection to range; implementing widget defines
  clamping/rejection policy for invalid input".
\<close>

definition Editor_setHighlightedRegion :: "policy \<Rightarrow> Editor \<Rightarrow> Range_int \<Rightarrow> Editor" where
  "Editor_setHighlightedRegion p e r =
     (if withinBounds r (Editor_getTotalNumChars e) then e\<lparr>selection := r\<rparr>
      else case p of
             Clamp \<Rightarrow> e\<lparr>selection := clampRange (Editor_getTotalNumChars e) r\<rparr>
           | Reject \<Rightarrow> e)"

text \<open>
  Modelled from the spec: "replaces any existing temporary underline marks with regions; empty
  sequence clears all underlines", and, from the design notes, a clamping or rejection policy
  when the operation receives out-of-bounds ranges.
\<close>

definition Editor_setTemporaryUnderlining :: "policy \<Rightarrow> Editor \<Rightarrow> Range_int list \<Rightarrow> Editor" where
  "Editor_setTemporaryUnderlining p e rs =
     (if list_all (\<lambda>r. withinBounds r (Editor_getTotalNumChars e)) rs then e\<lparr>underlining := rs\<rparr>
      else case p of
             Clamp \<Rightarrow> e\<lparr>underlining := map (clampRange (Editor_getTotalNumChars e)) rs\<rparr>
           | Reject \<Rightarrow> e)"

text \<open>
  Modelled from the spec: "returns the substring covered by range": the codepoints whose index
  lies between the start offset and the end offset.
\<close>

definition Editor_getTextInRange :: "Editor \<Rightarrow> Range_int \<Rightarrow> string" where
  "Editor_getTextInRange e r =
     take (nat (getEnd r) - nat (getStart r)) (drop (nat (getStart r)) (buffer e))"

text \<open>
  Modelled from the spec: "replaces the current selection (or inserts at caret if selection
  empty) with text; moves caret to end of inserted text". The spec does not say what the
  highlighted region is afterwards; the selected text is gone, so the editor is left with the
  empty range at the caret ("empty range if none").
\<close>

definition Editor_insertTextAtCaret :: "Editor \<Rightarrow> string \<Rightarrow> Editor" where
  "Editor_insertTextAtCaret e t =
     (let a = (if Range_isEmpty (selection e) then caret e else getStart (selection e));
          b = (if Range_isEmpty (selection e) then caret e else getEnd (selection e));
          c = a + int (length t)
      in e\<lparr> buffer := take (nat a) (buffer e) @ t @ drop (nat b) (buffer e),
            caret := c,
            selection := \<lparr>getStart = c, getEnd = c\<rparr> \<rparr>)"

text \<open>
  The editor as a target. \<open>kb\<close> is the keyboard kind an editor overrides \<^verbatim>\<open>getKeyboardType\<close>
  to return ("a numeric-only field overrides to return the numeric kind"), \<open>None\<close> for an editor
  that keeps the default.
\<close>

definition Editor_target :: "policy \<Rightarrow> layout \<Rightarrow> VirtualKeyboardType option \<Rightarrow> Editor TextInputTarget" where
  "Editor_target p L kb =
     \<lparr> isTextInputActive = accepting,
       getHighlightedRegion = selection,
       setHighlightedRegion = Editor_setHighlightedRegion p,
       setTemporaryUnderlining = Editor_setTemporaryUnderlining p,
       getTextInRange = Editor_getTextInRange,
       insertTextAtCaret = Editor_insertTextAtCaret,
       getCaretPosition = caret,
       getCaretRectangleForCharIndex = (\<lambda>e i. caretBox L (buffer e) i),
       getTotalNumChars = Editor_getTotalNumChars,
       getCharIndexForPoint = (\<lambda>e pt. nearestIndex L (buffer e) pt),
       getTextBounds = (\<lambda>e r. rangeBoxes L (buffer e) r),
       getKeyboardType_override = map_option (\<lambda>k e. (k, e)) kb \<rparr>"

text \<open>
  Modelled from the spec: the invariants of the data model. The caret is "a single codepoint
  index in [0, totalNumChars]" and the highlighted region is a valid range of the text.
\<close>

definition wellFormed :: "Editor \<Rightarrow> bool" where
  "wellFormed e \<longleftrightarrow>
     withinBounds (selection e) (Editor_getTotalNumChars e)
     \<and> 0 \<le> caret e \<and> caret e \<le> Editor_getTotalNumChars e"

text \<open>A layout for examples: every codepoint is eight units wide and sixteen high, on one line.\<close>

definition monospace :: layout where
  "monospace =
     \<lparr> caretBox = (\<lambda>t i. \<lparr>Rectangle_x = 8 * i, Rectangle_y = 0, Rectangle_w = 1, Rectangle_h = 16\<rparr>),
       nearestIndex = (\<lambda>t pt. clampOffset (int (length t)) (Point_x pt div 8)),
       rangeBoxes = (\<lambda>t r. [\<lparr>Rectangle_x = 8 * getStart r, Rectangle_y = 0,
                               Rectangle_w = 8 * (getEnd r - getStart r), Rectangle_h = 16\<rparr>]) \<rparr>"

text \<open>An editor holding "hello world" with "hello" selected and the caret after it.\<close>

definition helloEditor :: Editor where
  "helloEditor =
     \<lparr> buffer = ''hello world'',
       selection = \<lparr>getStart = 0, getEnd = 5\<rparr>,
       caret = 5,
       underlining = [],
       accepting = True \<rparr>"

section \<open>Properties of the interface\<close>

subsection \<open>Auxiliary facts\<close>

lemma VirtualKeyboardType_exhaustive:
  "k \<in> set VirtualKeyboardType_enumerators"
  unfolding VirtualKeyboardType_enumerators_def by (cases k) simp_all

lemma VirtualKeyboardType_UNIV:
  "(UNIV :: VirtualKeyboardType set) = set VirtualKeyboardType_enumerators"
  using VirtualKeyboardType_exhaustive by blast

lemma enumValue_range: "0 \<le> enumValue k \<and> enumValue k \<le> 6"
  by (cases k) (simp_all add: enumValue_def VirtualKeyboardType_enumerators_def)

lemma splice_prefix: "n \<le> length xs \<Longrightarrow> take n (take n xs @ t @ ys) = take n xs"
  by simp

lemma splice_middle: "n \<le> length xs \<Longrightarrow> take (length t) (drop n (take n xs @ t @ ys)) = t"
  by simp

lemma splice_suffix: "n \<le> length xs \<Longrightarrow> drop (n + length t) (take n xs @ t @ ys) = ys"
  by simp

lemma splice_length:
  "n \<le> length xs \<Longrightarrow> m \<le> length xs \<Longrightarrow>
   int (length (take n xs @ t @ drop m xs)) = int (length xs) - (int m - int n) + int (length t)"
  by simp

lemma Editor_insert_at_caret:
  "Range_isEmpty (selection e) \<Longrightarrow>
   Editor_getTotalNumChars (Editor_insertTextAtCaret e t)
     = Editor_getTotalNumChars e + int (length t)
   \<and> caret (Editor_insertTextAtCaret e t) = caret e + int (length t)"
  by (simp add: Editor_insertTextAtCaret_def Editor_getTotalNumChars_def Let_def)

lemma Editor_insert_replaces:
  fixes t :: string
  assumes wf: "wellFormed e" and ne: "\<not> Range_isEmpty (selection e)"
  defines "a \<equiv> getStart (selection e)"
  defines "b \<equiv> getEnd (selection e)"
  defines "e' \<equiv> Editor_insertTextAtCaret e t"
  shows "Editor_getTextInRange e' \<lparr>getStart = 0, getEnd = a\<rparr>
           = Editor_getTextInRange e \<lparr>getStart = 0, getEnd = a\<rparr>"
    and "Editor_getTextInRange e' \<lparr>getStart = a, getEnd = a + int (length t)\<rparr> = t"
    and "Editor_getTextInRange e'
           \<lparr>getStart = a + int (length t), getEnd = Editor_getTotalNumChars e'\<rparr>
           = Editor_getTextInRange e \<lparr>getStart = b, getEnd = Editor_getTotalNumChars e\<rparr>"
    and "Editor_getTotalNumChars e' = Editor_getTotalNumChars e - (b - a) + int (length t)"
    and "caret e' = a + int (length t)"
proof -
  define n where "n = nat a"
  define m where "m = nat b"
  from wf have n: "n \<le> length (buffer e)" and m: "m \<le> length (buffer e)"
    and a: "a = int n" and b: "b = int m"
    by (auto simp add: wellFormed_def withinBounds_def Editor_getTotalNumChars_def
        a_def b_def n_def m_def)
  have buf: "buffer e' = take n (buffer e) @ t @ drop m (buffer e)"
    using ne by (simp add: e'_def Editor_insertTextAtCaret_def Let_def n_def m_def a_def b_def)
  show "caret e' = a + int (length t)"
    using ne by (simp add: e'_def Editor_insertTextAtCaret_def Let_def a_def)
  show "Editor_getTotalNumChars e' = Editor_getTotalNumChars e - (b - a) + int (length t)"
    unfolding Editor_getTotalNumChars_def buf a b using splice_length [OF n m] .
  have pre: "take n (buffer e') = take n (buffer e)"
    unfolding buf by (rule splice_prefix [OF n])
  have mid: "take (length t) (drop n (buffer e')) = t"
    unfolding buf by (rule splice_middle [OF n])
  have suf: "drop (n + length t) (buffer e') = drop m (buffer e)"
    unfolding buf by (rule splice_suffix [OF n])
  have at: "nat (a + int (length t)) = n + length t"
    by (simp add: a nat_add_distrib)
  show "Editor_getTextInRange e' \<lparr>getStart = 0, getEnd = a\<rparr>
           = Editor_getTextInRange e \<lparr>getStart = 0, getEnd = a\<rparr>"
    using pre by (simp add: Editor_getTextInRange_def a)
  show "Editor_getTextInRange e' \<lparr>getStart = a, getEnd = a + int (length t)\<rparr> = t"
    using mid by (simp add: Editor_getTextInRange_def at) (simp add: a)
  have "length (drop m (buffer e)) \<le> nat (Editor_getTotalNumChars e') - (n + length t)"
    using n by (simp add: Editor_getTotalNumChars_def buf min_absorb2)
  then show "Editor_getTextInRange e'
               \<lparr>getStart = a + int (length t), getEnd = Editor_getTotalNumChars e'\<rparr>
             = Editor_getTextInRange e \<lparr>getStart = b, getEnd = Editor_getTotalNumChars e\<rparr>"
    by (simp add: Editor_getTextInRange_def at suf) (simp add: Editor_getTotalNumChars_def b)
qed

lemma wellFormed_invoke:
  assumes wf: "wellFormed e"
  shows "wellFormed (snd (invoke (Editor_target p L kb) c e))"
proof (cases c)
  case (SetHighlightedRegion r)
  from wf show ?thesis unfolding SetHighlightedRegion
    by (cases p) (auto simp add: Editor_target_def Editor_setHighlightedRegion_def wellFormed_def
        Editor_getTotalNumChars_def withinBounds_def clampRange_def clampOffset_def)
next
  case (SetTemporaryUnderlining rs)
  from wf show ?thesis unfolding SetTemporaryUnderlining
    by (cases p) (auto simp add: Editor_target_def Editor_setTemporaryUnderlining_def
        wellFormed_def Editor_getTotalNumChars_def)
next
  case (InsertTextAtCaret t)
  from wf show ?thesis unfolding InsertTextAtCaret
    by (auto simp add: Editor_target_def Editor_insertTextAtCaret_def wellFormed_def Let_def
        Editor_getTotalNumChars_def withinBounds_def)
next
  case GetKeyboardType
  from wf show ?thesis unfolding GetKeyboardType
    by (cases kb)
      (simp_all add: Editor_target_def getKeyboardType_def TextInputTarget_getKeyboardType_def)
qed (simp_all add: wf)

lemma wellFormed_run: "wellFormed e \<Longrightarrow> wellFormed (run (Editor_target p L kb) cs e)"
  by (induction cs arbitrary: e) (simp_all add: wellFormed_invoke)

subsection \<open>The interface as declared\<close>

text \<open>
  C1: for every target \<open>W\<close> and every state, \<^verbatim>\<open>getCaretRectangle()\<close> returns the rectangle that
  \<^verbatim>\<open>getCaretRectangleForCharIndex(getCaretPosition())\<close> returns, and leaves the state as it was.
  The function is not a slot of the table, so no derived class can change this.
\<close>

theorem getCaretRectangle_delegates:
  "getCaretRectangle W s = getCaretRectangleForCharIndex W s (getCaretPosition W s)
   \<and> invoke W GetCaretRectangle s
       = (RRectangle (getCaretRectangleForCharIndex W s (getCaretPosition W s)), s)"
  by (simp add: getCaretRectangle_def)

text \<open>
  C2: the body of \<^verbatim>\<open>getKeyboardType()\<close> in the base class returns \<^verbatim>\<open>textKeyboard\<close>; a target
  that does not override the function gets this value from the virtual call, with its state
  unchanged.
\<close>

theorem getKeyboardType_default:
  "getKeyboardType_override W = None \<Longrightarrow> getKeyboardType W s = (textKeyboard, s)"
  by (simp add: getKeyboardType_def TextInputTarget_getKeyboardType_def)

theorem getKeyboardType_default_witness:
  "getKeyboardType_override plainTarget = None
   \<and> getKeyboardType plainTarget 4 = (textKeyboard, 4)"
  using getKeyboardType_default [of plainTarget 4]
  by (simp add: plainTarget_def)

text \<open>
  C9: \<^verbatim>\<open>VirtualKeyboardType\<close> has exactly seven values, numbered consecutively from
  \<^verbatim>\<open>textKeyboard = 0\<close> to \<^verbatim>\<open>passwordKeyboard = 6\<close>, so the value \<^verbatim>\<open>getKeyboardType()\<close> returns is
  an integer of \<open>[0, 6]\<close> for every target and state.
\<close>

theorem VirtualKeyboardType_seven_values:
  "card (UNIV :: VirtualKeyboardType set) = 7
   \<and> enumValue textKeyboard = 0
   \<and> enumValue numericKeyboard = 1
   \<and> enumValue decimalKeyboard = 2
   \<and> enumValue urlKeyboard = 3
   \<and> enumValue emailAddressKeyboard = 4
   \<and> enumValue phoneNumberKeyboard = 5
   \<and> enumValue passwordKeyboard = 6
   \<and> 0 \<le> enumValue (fst (getKeyboardType W s))
   \<and> enumValue (fst (getKeyboardType W s)) \<le> 6"
proof -
  have "card (UNIV :: VirtualKeyboardType set) = 7"
    by (simp add: VirtualKeyboardType_UNIV) (simp add: VirtualKeyboardType_enumerators_def)
  moreover have "enumValue textKeyboard = 0" "enumValue numericKeyboard = 1"
    "enumValue decimalKeyboard = 2" "enumValue urlKeyboard = 3"
    "enumValue emailAddressKeyboard = 4" "enumValue phoneNumberKeyboard = 5"
    "enumValue passwordKeyboard = 6"
    by (simp_all add: enumValue_def VirtualKeyboardType_enumerators_def)
  ultimately show ?thesis
    using enumValue_range [of "fst (getKeyboardType W s)"] by simp
qed

subsection \<open>The editor behind the interface\<close>

text \<open>
  C4: for the editor under either policy, and every range \<open>r\<close> within the bounds
  \<open>[0, getTotalNumChars()]\<close> of the current text, \<^verbatim>\<open>getHighlightedRegion()\<close> after
  \<^verbatim>\<open>setHighlightedRegion(r)\<close> returns \<open>r\<close>.
\<close>

theorem setHighlightedRegion_roundtrip:
  "withinBounds r (getTotalNumChars (Editor_target p L kb) e) \<Longrightarrow>
   getHighlightedRegion (Editor_target p L kb)
     (setHighlightedRegion (Editor_target p L kb) e r) = r"
  by (simp add: Editor_target_def Editor_setHighlightedRegion_def)

theorem setHighlightedRegion_roundtrip_witness:
  "withinBounds \<lparr>getStart = 6, getEnd = 11\<rparr>
     (getTotalNumChars (Editor_target Clamp monospace None) helloEditor)
   \<and> getHighlightedRegion (Editor_target Clamp monospace None)
       (setHighlightedRegion (Editor_target Clamp monospace None) helloEditor
          \<lparr>getStart = 6, getEnd = 11\<rparr>)
     = \<lparr>getStart = 6, getEnd = 11\<rparr>"
  using setHighlightedRegion_roundtrip
          [of "\<lparr>getStart = 6, getEnd = 11\<rparr>" Clamp monospace None helloEditor]
  by (simp add: Editor_target_def Editor_getTotalNumChars_def helloEditor_def withinBounds_def)

text \<open>
  C5: let \<open>e'\<close> be the editor after \<^verbatim>\<open>insertTextAtCaret(t)\<close>. If the selection was empty,
  \<^verbatim>\<open>getTotalNumChars()\<close> has grown by the length of \<open>t\<close> and \<^verbatim>\<open>getCaretPosition()\<close> is the prior
  caret position plus the length of \<open>t\<close>. If the selection \<open>[a, b)\<close> was not empty (in a
  well-formed editor), the text before \<open>a\<close> is as before, the text from \<open>a\<close> is \<open>t\<close>, the text
  after it is what followed \<open>b\<close>, and the caret is at \<open>a\<close> plus the length of \<open>t\<close>, the end of
  the inserted text.
\<close>

theorem insertTextAtCaret_effect:
  fixes p :: policy and L :: layout and kb :: "VirtualKeyboardType option"
    and e :: Editor and t :: string
  defines "W \<equiv> Editor_target p L kb"
  defines "e' \<equiv> insertTextAtCaret W e t"
  defines "a \<equiv> getStart (getHighlightedRegion W e)"
  defines "b \<equiv> getEnd (getHighlightedRegion W e)"
  shows "(Range_isEmpty (getHighlightedRegion W e) \<longrightarrow>
            getTotalNumChars W e' = getTotalNumChars W e + int (length t)
          \<and> getCaretPosition W e' = getCaretPosition W e + int (length t))
       \<and> (wellFormed e \<and> \<not> Range_isEmpty (getHighlightedRegion W e) \<longrightarrow>
            getTextInRange W e' \<lparr>getStart = 0, getEnd = a\<rparr>
              = getTextInRange W e \<lparr>getStart = 0, getEnd = a\<rparr>
          \<and> getTextInRange W e' \<lparr>getStart = a, getEnd = a + int (length t)\<rparr> = t
          \<and> getTextInRange W e' \<lparr>getStart = a + int (length t), getEnd = getTotalNumChars W e'\<rparr>
              = getTextInRange W e \<lparr>getStart = b, getEnd = getTotalNumChars W e\<rparr>
          \<and> getTotalNumChars W e' = getTotalNumChars W e - (b - a) + int (length t)
          \<and> getCaretPosition W e' = a + int (length t))"
proof -
  have sel: "getHighlightedRegion W e = selection e"
    and ins: "e' = Editor_insertTextAtCaret e t"
    and tot: "getTotalNumChars W = Editor_getTotalNumChars"
    and pos: "getCaretPosition W = caret"
    and sub: "getTextInRange W = Editor_getTextInRange"
    by (simp_all add: W_def e'_def Editor_target_def)
  show ?thesis
    unfolding a_def b_def sel tot pos sub ins
    using Editor_insert_at_caret [of e t] Editor_insert_replaces [of e t]
    by blast
qed

theorem insertTextAtCaret_effect_witness:
  "Range_isEmpty (getHighlightedRegion (Editor_target Reject monospace None)
       (helloEditor \<lparr> selection := \<lparr>getStart = 5, getEnd = 5\<rparr> \<rparr>))
   \<and> getTotalNumChars (Editor_target Reject monospace None)
       (insertTextAtCaret (Editor_target Reject monospace None)
          (helloEditor \<lparr> selection := \<lparr>getStart = 5, getEnd = 5\<rparr> \<rparr>) '', big'') = 11 + 5
   \<and> getCaretPosition (Editor_target Reject monospace None)
       (insertTextAtCaret (Editor_target Reject monospace None)
          (helloEditor \<lparr> selection := \<lparr>getStart = 5, getEnd = 5\<rparr> \<rparr>) '', big'') = 5 + 5
   \<and> wellFormed helloEditor
   \<and> \<not> Range_isEmpty (getHighlightedRegion (Editor_target Reject monospace None) helloEditor)
   \<and> getTextInRange (Editor_target Reject monospace None)
       (insertTextAtCaret (Editor_target Reject monospace None) helloEditor ''bye'')
       \<lparr>getStart = 0, getEnd = 3\<rparr> = ''bye''
   \<and> getTextInRange (Editor_target Reject monospace None)
       (insertTextAtCaret (Editor_target Reject monospace None) helloEditor ''bye'')
       \<lparr>getStart = 3, getEnd = 9\<rparr> = '' world''
   \<and> getTotalNumChars (Editor_target Reject monospace None)
       (insertTextAtCaret (Editor_target Reject monospace None) helloEditor ''bye'') = 9
   \<and> getCaretPosition (Editor_target Reject monospace None)
       (insertTextAtCaret (Editor_target Reject monospace None) helloEditor ''bye'') = 3"
  using insertTextAtCaret_effect
          [of Reject monospace None "helloEditor \<lparr> selection := \<lparr>getStart = 5, getEnd = 5\<rparr> \<rparr>"
              "'', big''"]
        insertTextAtCaret_effect [of Reject monospace None helloEditor "''bye''"]
  by (simp add: Editor_target_def Editor_getTotalNumChars_def helloEditor_def withinBounds_def
      wellFormed_def Range_isEmpty_def Editor_getTextInRange_def Editor_insertTextAtCaret_def)

text \<open>
  C7: in every state the editor reaches from a well-formed state by any sequence of calls of
  the interface's operations, \<^verbatim>\<open>getCaretPosition()\<close> lies in the closed interval
  \<open>[0, getTotalNumChars()]\<close>.
\<close>

theorem caret_within_text:
  "wellFormed e \<Longrightarrow>
   0 \<le> getCaretPosition (Editor_target p L kb) (run (Editor_target p L kb) cs e)
   \<and> getCaretPosition (Editor_target p L kb) (run (Editor_target p L kb) cs e)
       \<le> getTotalNumChars (Editor_target p L kb) (run (Editor_target p L kb) cs e)"
  using wellFormed_run [of e p L kb cs]
  by (simp add: wellFormed_def) (simp add: Editor_target_def)

theorem caret_within_text_witness:
  "wellFormed helloEditor
   \<and> getCaretPosition (Editor_target Clamp monospace (Some numericKeyboard))
       (run (Editor_target Clamp monospace (Some numericKeyboard))
          [InsertTextAtCaret ''bye'', SetHighlightedRegion \<lparr>getStart = 4, getEnd = 99\<rparr>,
           GetKeyboardType, InsertTextAtCaret ''!''] helloEditor) = 5
   \<and> getTotalNumChars (Editor_target Clamp monospace (Some numericKeyboard))
       (run (Editor_target Clamp monospace (Some numericKeyboard))
          [InsertTextAtCaret ''bye'', SetHighlightedRegion \<lparr>getStart = 4, getEnd = 99\<rparr>,
           GetKeyboardType, InsertTextAtCaret ''!''] helloEditor) = 5"
  using caret_within_text
          [of helloEditor Clamp monospace "Some numericKeyboard"
              "[InsertTextAtCaret ''bye'', SetHighlightedRegion \<lparr>getStart = 4, getEnd = 99\<rparr>,
                GetKeyboardType, InsertTextAtCaret ''!'']"]
  by (simp add: Editor_target_def Editor_getTotalNumChars_def helloEditor_def withinBounds_def
      wellFormed_def Range_isEmpty_def Editor_insertTextAtCaret_def
      Editor_setHighlightedRegion_def clampRange_def clampOffset_def getKeyboardType_def)

end
